theory Spec2Isabelle
  imports Main
begin

section \<open>The browser connection lifecycle manager\<close>

text \<open>
  A shallow embedding of \<^verbatim>\<open>getFreePort\<close> (packages/core/src/utils/net.ts), of the class
  \<^verbatim>\<open>BrowserManager\<close> and of \<^verbatim>\<open>BrowserTools.pressKey\<close> and
  \<^verbatim>\<open>BrowserTools.keyCombination\<close>.

  The code is asynchronous TypeScript run by one caller at a time: every \<^verbatim>\<open>await\<close> is a
  sequencing point, a rejected promise is an exception. A function of the source becomes a
  function from the state to a result (\<open>Inl\<close> the thrown error) and the state it leaves,
  also when it throws, since what was assigned before the throw stays assigned.
\<close>

subsection \<open>Handles, errors and the calls that leave the manager\<close>

datatype server = ServerRef nat
datatype browser = BrowserRef nat
datatype browserContext = ContextRef nat
datatype page = PageRef nat
datatype client = ClientRef nat

text \<open>A JavaScript \<^verbatim>\<open>Error\<close> with its message.\<close>

datatype error = Error string

text \<open>What \<^verbatim>\<open>server.address()\<close> returns: \<^verbatim>\<open>AddressInfo | string | null\<close>.\<close>

datatype address =
    AddressInfo string string nat
  | AddressString string
  | AddressNull

text \<open>
  Every call that the modelled code makes is appended to a log, in the order of the source:
  the calls to collaborators (the socket, the driver, the registry, the client, the logger)
  and the entry into \<^verbatim>\<open>getFreePort\<close>.
\<close>

datatype call =
    GetFreePort
  | CreateServer
  | Unref server
  | OnError server
  | Listen server nat
  | Address server
  | Close server
  | IsConnected browser
  | Launch bool "string list"
  | NewContext browser
  | NewPage browserContext
  | GetMcpClientManager
  | GetClient string
  | MaybeDiscoverMcpServer string string "string list"
  | GetStatus client
  | Connect client
  | CallTool client string "(string \<times> string) list"
  | Log string

fun is_Launch :: "call \<Rightarrow> bool" where
  "is_Launch (Launch h args) = True"
| "is_Launch c = False"

fun is_Register :: "call \<Rightarrow> bool" where
  "is_Register (MaybeDiscoverMcpServer name cmd args) = True"
| "is_Register c = False"

fun is_Connect :: "call \<Rightarrow> bool" where
  "is_Connect (Connect c) = True"
| "is_Connect c = False"

fun is_CallTool :: "call \<Rightarrow> bool" where
  "is_CallTool (CallTool c name args) = True"
| "is_CallTool c = False"

subsection \<open>The collaborators\<close>

text \<open>
  The collaborators are not part of the code: they are parameters. \<open>'n\<close> is the state of the
  operating system's socket layer, \<open>'w\<close> the state of everything the driver, the registry and
  the clients can see or change (which browser processes live, which clients are registered
  and connected). The two are kept apart: the socket that \<^verbatim>\<open>getFreePort\<close> opens and closes
  does not touch \<open>'w\<close>. An operation that can change its state returns the new one; an
  operation that can throw returns the error; \<^verbatim>\<open>address\<close>, \<^verbatim>\<open>isConnected\<close>, \<^verbatim>\<open>getClient\<close> and
  \<^verbatim>\<open>getStatus\<close> only read it.
\<close>

text \<open>
  What \<^verbatim>\<open>callTool\<close> resolves with: \<^verbatim>\<open>{content?: {type: string, text?: string}[]}\<close>.
\<close>

type_synonym toolResponse = "(string \<times> string option) list option"

record settings =
  headless :: "bool option"

record ('n, 'w) env =
  createServer :: "'n \<Rightarrow> server \<times> 'n"
  listen :: "server \<Rightarrow> nat \<Rightarrow> 'n \<Rightarrow> error option \<times> 'n"
  address :: "server \<Rightarrow> 'n \<Rightarrow> address"
  close :: "server \<Rightarrow> 'n \<Rightarrow> 'n"
  browserAgentSettings :: "settings option"
  launch :: "bool \<Rightarrow> string list \<Rightarrow> 'w \<Rightarrow> (error + browser) \<times> 'w"
  isConnected :: "browser \<Rightarrow> 'w \<Rightarrow> bool"
  newContext :: "browser \<Rightarrow> 'w \<Rightarrow> (error + browserContext) \<times> 'w"
  newPage :: "browserContext \<Rightarrow> 'w \<Rightarrow> (error + page) \<times> 'w"
  getMcpClientManager :: "'w \<Rightarrow> bool"
  getClient :: "string \<Rightarrow> 'w \<Rightarrow> client option"
  maybeDiscoverMcpServer :: "string \<Rightarrow> string \<Rightarrow> string list \<Rightarrow> 'w \<Rightarrow> error option \<times> 'w"
  getStatus :: "client \<Rightarrow> 'w \<Rightarrow> string"
  connect :: "client \<Rightarrow> 'w \<Rightarrow> error option \<times> 'w"
  callTool :: "client \<Rightarrow> string \<Rightarrow> (string \<times> string) list \<Rightarrow> 'w \<Rightarrow> (error + toolResponse) \<times> 'w"

text \<open>
  \<open>listen env srv 0 n\<close> is \<^verbatim>\<open>server.listen(0, callback)\<close>: \<open>Some e\<close> when the server emits
  \<^verbatim>\<open>'error'\<close> with \<open>e\<close>, \<open>None\<close> when the callback runs. \<open>getMcpClientManager env w\<close> tells
  whether \<^verbatim>\<open>config.getMcpClientManager()\<close> returns a manager.
\<close>

subsection \<open>The state\<close>

text \<open>
  The four private fields of \<^verbatim>\<open>BrowserManager\<close>, \<^verbatim>\<open>undefined\<close> being \<open>None\<close>, then the
  state of the collaborators and the log of calls.
\<close>

record ('n, 'w) state =
  mcpClient :: "client option"
  browser :: "browser option"
  page :: "page option"
  remoteDebuggingPort :: "nat option"
  net :: "'n"
  world :: "'w"
  calls :: "call list"

definition emit :: "call \<Rightarrow> ('n, 'w) state \<Rightarrow> ('n, 'w) state" where
  "emit c s = s\<lparr>calls := calls s @ [c]\<rparr>"

text \<open>
  \<^verbatim>\<open>const x = await e; rest\<close>: when \<open>e\<close> throws, the rest does not run and the error goes to
  the caller, with the state as \<open>e\<close> left it.
\<close>

definition await :: "(error + 'a) \<times> 's \<Rightarrow> ('a \<Rightarrow> 's \<Rightarrow> (error + 'b) \<times> 's) \<Rightarrow> (error + 'b) \<times> 's" where
  "await r k = (case r of (Inl e, s) \<Rightarrow> (Inl e, s) | (Inr a, s) \<Rightarrow> k a s)"

text \<open>A call of a collaborator that works on \<open>'w\<close>, logged.\<close>

definition invoke :: "call \<Rightarrow> ('w \<Rightarrow> 'r \<times> 'w) \<Rightarrow> ('n, 'w) state \<Rightarrow> 'r \<times> ('n, 'w) state" where
  "invoke c f s = (case f (world s) of (r, w) \<Rightarrow> (r, s\<lparr>world := w, calls := calls s @ [c]\<rparr>))"

text \<open>A collaborator that returns nothing: its result is the error, if any.\<close>

definition raised :: "error option \<times> 's \<Rightarrow> (error + unit) \<times> 's" where
  "raised r = (case r of (Some e, s) \<Rightarrow> (Inl e, s) | (None, s) \<Rightarrow> (Inr (), s))"

subsection \<open>Numbers in template strings\<close>

text \<open>
  \<^verbatim>\<open>`${port}`\<close> for a port, which is a non-negative integer below 65536: its decimal
  numeral, without leading zeros.
\<close>

definition digit_char :: "nat \<Rightarrow> char" where
  "digit_char d = char_of (48 + d)"

definition char_digit :: "char \<Rightarrow> nat" where
  "char_digit c = of_char c - 48"

function string_of_nat :: "nat \<Rightarrow> string" where
  "string_of_nat n =
     (if n < 10 then [digit_char n] else string_of_nat (n div 10) @ [digit_char (n mod 10)])"
  by pat_completeness auto
termination
  by (relation "measure (\<lambda>n. n)") auto

declare string_of_nat.simps [simp del]

definition nat_of_string :: "string \<Rightarrow> nat" where
  "nat_of_string cs = foldl (\<lambda>a c. 10 * a + char_digit c) 0 cs"

subsection \<open>net.ts\<close>

text \<open>
  \<^verbatim>\<open>getFreePort\<close>. The promise is settled once: by \<^verbatim>\<open>reject\<close> from the \<^verbatim>\<open>'error'\<close> handler,
  or in the callback of \<^verbatim>\<open>close\<close>. \<^verbatim>\<open>port\<close> is \<^verbatim>\<open>0\<close> for a string address, \<^verbatim>\<open>undefined\<close>
  for \<^verbatim>\<open>null\<close>, and \<^verbatim>\<open>if (port)\<close> is false for both and for a port that is 0.
\<close>

definition getFreePort :: "('n, 'w) env \<Rightarrow> ('n, 'w) state \<Rightarrow> (error + nat) \<times> ('n, 'w) state" where
  "getFreePort env s =
     (case createServer env (net s) of (srv, n1) \<Rightarrow>
     (case listen env srv 0 n1 of (ev, n2) \<Rightarrow>
     (let opened = [GetFreePort, CreateServer, Unref srv, OnError srv, Listen srv 0]
      in (case ev of
            Some e \<Rightarrow> (Inl e, s\<lparr>net := n2, calls := calls s @ opened\<rparr>)
          | None \<Rightarrow>
             (let port = (case address env srv n2 of
                            AddressString a \<Rightarrow> Some 0
                          | AddressInfo a f p \<Rightarrow> Some p
                          | AddressNull \<Rightarrow> None);
                  s' = s\<lparr>net := close env srv n2,
                         calls := calls s @ opened @ [Address srv, Close srv]\<rparr>
              in (case port of
                    Some p \<Rightarrow>
                      (if p \<noteq> 0 then (Inr p, s') else (Inl (Error ''Failed to get port''), s'))
                  | None \<Rightarrow> (Inl (Error ''Failed to get port''), s')))))))"

subsection \<open>BrowserManager\<close>

text \<open>
  \<^verbatim>\<open>launchBrowser\<close>. \<open>headlessMode\<close> is \<^verbatim>\<open>settings?.headless ?? false\<close> and \<open>launchArgs\<close>
  the array \<^verbatim>\<open>args\<close>. \<^verbatim>\<open>this.browser\<close> is assigned as soon as \<^verbatim>\<open>launch\<close> resolves,
  \<^verbatim>\<open>this.page\<close> only after \<^verbatim>\<open>newContext\<close> and \<^verbatim>\<open>newPage\<close> have resolved. The context is
  always created with \<^verbatim>\<open>{viewport: null}\<close>.
\<close>

definition headlessMode :: "('n, 'w) env \<Rightarrow> bool" where
  "headlessMode env =
     (case browserAgentSettings env of
        None \<Rightarrow> False
      | Some st \<Rightarrow> (case headless st of None \<Rightarrow> False | Some h \<Rightarrow> h))"

definition launchArgs :: "nat \<Rightarrow> string list" where
  "launchArgs port = [''--remote-debugging-port='' @ string_of_nat port, ''--window-size=1024,1024'']"

definition launchBrowser :: "('n, 'w) env \<Rightarrow> nat \<Rightarrow> ('n, 'w) state \<Rightarrow> (error + unit) \<times> ('n, 'w) state" where
  "launchBrowser env port s =
     (let s1 = emit (Log ''Launching Chrome via Playwright...'') s
      in await (invoke (Launch (headlessMode env) (launchArgs port))
                  (launch env (headlessMode env) (launchArgs port)) s1) (\<lambda>b s2.
         await (invoke (NewContext b) (newContext env b) (s2\<lparr>browser := Some b\<rparr>)) (\<lambda>ctx s3.
         await (invoke (NewPage ctx) (newPage env ctx) s3) (\<lambda>pg s4.
         (Inr (), emit (Log (''Browser launched successfully on port '' @ string_of_nat port @ ''.''))
                    (s4\<lparr>page := Some pg\<rparr>))))))"

text \<open>The name under which the client of a port is registered.\<close>

definition clientName :: "nat \<Rightarrow> string" where
  "clientName port = ''chrome-devtools-'' @ string_of_nat port"

definition browserUrl :: "nat \<Rightarrow> string" where
  "browserUrl port = ''http://127.0.0.1:'' @ string_of_nat port"

definition registerArgs :: "nat \<Rightarrow> string list" where
  "registerArgs port = [''-y'', ''chrome-devtools-mcp@latest'', ''--browser-url'', browserUrl port]"

text \<open>
  \<^verbatim>\<open>connectMcp\<close>, in two parts. \<open>resolveClient\<close> is the lookup in the registry and the
  block \<^verbatim>\<open>if (!client) { ... }\<close> that registers the server and looks the client up again;
  its result is the value of \<^verbatim>\<open>client\<close> after that block.
\<close>

definition resolveClient :: "('n, 'w) env \<Rightarrow> nat \<Rightarrow> ('n, 'w) state \<Rightarrow> (error + client option) \<times> ('n, 'w) state" where
  "resolveClient env port s =
     (let s1 = emit (GetClient (clientName port)) s
      in case getClient env (clientName port) (world s1) of
           Some c \<Rightarrow> (Inr (Some c), s1)
         | None \<Rightarrow>
             let s2 = emit (Log (''Registering chrome-devtools-mcp server ('' @ clientName port
                                  @ '') dynamically...'')) s1
             in await
                  (raised (invoke (MaybeDiscoverMcpServer (clientName port) ''npx'' (registerArgs port))
                             (maybeDiscoverMcpServer env (clientName port) ''npx'' (registerArgs port)) s2))
                  (\<lambda>u s3. (Inr (getClient env (clientName port) (world s3)),
                            emit (GetClient (clientName port)) s3)))"

definition connectMcp :: "('n, 'w) env \<Rightarrow> nat \<Rightarrow> ('n, 'w) state \<Rightarrow> (error + unit) \<times> ('n, 'w) state" where
  "connectMcp env port s =
     (let s1 = emit GetMcpClientManager s
      in if \<not> getMcpClientManager env (world s1)
         then (Inl (Error ''MCP Client Manager not available in config''), s1)
         else
           await (resolveClient env port s1) (\<lambda>found s2.
             case found of
               None \<Rightarrow> (Inl (Error ''Failed to initialize chrome-devtools MCP client''), s2)
             | Some c \<Rightarrow>
                 await
                   (if getStatus env c (world s2) \<noteq> ''connected''
                    then raised (invoke (Connect c) (connect env c) (emit (GetStatus c) s2))
                    else (Inr (), emit (GetStatus c) s2))
                   (\<lambda>u s3. (Inr (), s3\<lparr>mcpClient := Some c\<rparr>))))"

text \<open>
  \<^verbatim>\<open>ensureBrowserLaunched\<close>, one definition for each of its three commented blocks.
  \<^verbatim>\<open>!this.remoteDebuggingPort\<close> holds for \<^verbatim>\<open>undefined\<close> and for \<^verbatim>\<open>0\<close>.
\<close>

definition truthy :: "nat option \<Rightarrow> bool" where
  "truthy v = (case v of None \<Rightarrow> False | Some n \<Rightarrow> n \<noteq> 0)"

definition portStage :: "('n, 'w) env \<Rightarrow> ('n, 'w) state \<Rightarrow> (error + nat) \<times> ('n, 'w) state" where
  "portStage env s =
     (let allocated = await (getFreePort env s) (\<lambda>p s1. (Inr p, s1\<lparr>remoteDebuggingPort := Some p\<rparr>))
      in case remoteDebuggingPort s of
           None \<Rightarrow> allocated
         | Some p \<Rightarrow> if p = 0 then allocated else (Inr p, s))"

definition browserStage :: "('n, 'w) env \<Rightarrow> nat \<Rightarrow> ('n, 'w) state \<Rightarrow> (error + unit) \<times> ('n, 'w) state" where
  "browserStage env port s =
     (case browser s of
        None \<Rightarrow> launchBrowser env port s
      | Some b \<Rightarrow>
          if \<not> isConnected env b (world s)
          then launchBrowser env port (emit (IsConnected b) s)
          else (Inr (), emit (IsConnected b) s))"

definition clientStage :: "('n, 'w) env \<Rightarrow> nat \<Rightarrow> ('n, 'w) state \<Rightarrow> (error + unit) \<times> ('n, 'w) state" where
  "clientStage env port s =
     (case mcpClient s of
        None \<Rightarrow> connectMcp env port s
      | Some c \<Rightarrow>
          if getStatus env c (world s) \<noteq> ''connected''
          then connectMcp env port (emit (GetStatus c) s)
          else (Inr (), emit (GetStatus c) s))"

definition ensureBrowserLaunched :: "('n, 'w) env \<Rightarrow> ('n, 'w) state \<Rightarrow> (error + unit) \<times> ('n, 'w) state" where
  "ensureBrowserLaunched env s =
     await (portStage env s) (\<lambda>port s1.
     await (browserStage env port s1) (\<lambda>u s2.
     clientStage env port s2))"

definition ensureConnection :: "('n, 'w) env \<Rightarrow> ('n, 'w) state \<Rightarrow> (error + unit) \<times> ('n, 'w) state" where
  "ensureConnection env s = ensureBrowserLaunched env s"

text \<open>
  \<^verbatim>\<open>getMcpClient\<close>: \<^verbatim>\<open>getStatus\<close> is called only when a client is stored.
\<close>

definition getMcpClient :: "('n, 'w) env \<Rightarrow> ('n, 'w) state \<Rightarrow> (error + client) \<times> ('n, 'w) state" where
  "getMcpClient env s =
     (let ensure = (\<lambda>s1.
            await (ensureConnection env s1) (\<lambda>u s2.
              case mcpClient s2 of
                None \<Rightarrow> (Inl (Error ''Failed to initialize chrome-devtools MCP client''), s2)
              | Some c \<Rightarrow> (Inr c, s2)))
      in case mcpClient s of
           None \<Rightarrow> ensure s
         | Some c \<Rightarrow>
             if getStatus env c (world s) = ''connected''
             then (Inr c, emit (GetStatus c) s)
             else ensure (emit (GetStatus c) s))"

definition getPage :: "('n, 'w) env \<Rightarrow> ('n, 'w) state \<Rightarrow> (error + page) \<times> ('n, 'w) state" where
  "getPage env s =
     await (case page s of
              None \<Rightarrow> ensureBrowserLaunched env s
            | Some p \<Rightarrow> (Inr (), s))
       (\<lambda>u s1.
          case page s1 of
            None \<Rightarrow> (Inl (Error ''Browser page not available''), s1)
          | Some p \<Rightarrow> (Inr p, s1))"

subsection \<open>BrowserTools\<close>

record ToolResult =
  "output" :: "string option"
  error :: "string option"
  url :: "string option"

text \<open>
  \<^verbatim>\<open>pressKey\<close>: the argument of \<^verbatim>\<open>callTool\<close> is the object \<^verbatim>\<open>{ key }\<close>, the response is
  dropped, the output is \<^verbatim>\<open>Pressed key "<key>"\<close>.
\<close>

definition pressKey :: "('n, 'w) env \<Rightarrow> string \<Rightarrow> ('n, 'w) state \<Rightarrow> (error + ToolResult) \<times> ('n, 'w) state" where
  "pressKey env key s =
     await (getMcpClient env s) (\<lambda>c s1.
     await (invoke (CallTool c ''press_key'' [(''key'', key)])
              (callTool env c ''press_key'' [(''key'', key)]) s1) (\<lambda>response s2.
     (Inr \<lparr>output = Some (''Pressed key '' @ [CHR 0x22] @ key @ [CHR 0x22]),
           error = None, url = None\<rparr>, s2)))"

definition keyCombination :: "('n, 'w) env \<Rightarrow> string \<Rightarrow> ('n, 'w) state \<Rightarrow> (error + ToolResult) \<times> ('n, 'w) state" where
  "keyCombination env keys s = pressKey env keys s"

text \<open>
  A sequence of calls of \<^verbatim>\<open>ensureConnection\<close> on one manager, each caller catching what is
  thrown. Before each call the collaborators may have changed on their own (a port taken by
  another process, a browser process that died, a client that lost its connection): one
  function on their state for each call.
\<close>

definition outsideChange :: "('n \<times> 'w \<Rightarrow> 'n \<times> 'w) \<Rightarrow> ('n, 'w) state \<Rightarrow> ('n, 'w) state" where
  "outsideChange change s = (case change (net s, world s) of (n, w) \<Rightarrow> s\<lparr>net := n, world := w\<rparr>)"

fun ensureConnections :: "('n, 'w) env \<Rightarrow> ('n \<times> 'w \<Rightarrow> 'n \<times> 'w) list \<Rightarrow> ('n, 'w) state \<Rightarrow> ('n, 'w) state" where
  "ensureConnections env [] s = s"
| "ensureConnections env (change # changes) s =
     ensureConnections env changes (snd (ensureConnection env (outsideChange change s)))"

text \<open>
  The test of the second block of \<^verbatim>\<open>ensureBrowserLaunched\<close>, negated: a browser is stored
  and \<^verbatim>\<open>isConnected()\<close> is true.
\<close>

definition browserLive :: "('n, 'w) env \<Rightarrow> ('n, 'w) state \<Rightarrow> bool" where
  "browserLive env s = (case browser s of None \<Rightarrow> False | Some b \<Rightarrow> isConnected env b (world s))"


text \<open>
  A manager as the constructor leaves it: the four fields \<^verbatim>\<open>undefined\<close>.
\<close>

definition newBrowserManager :: "'n \<Rightarrow> 'w \<Rightarrow> ('n, 'w) state" where
  "newBrowserManager n w =
     \<lparr>mcpClient = None, browser = None, page = None, remoteDebuggingPort = None,
      net = n, world = w, calls = []\<rparr>"

text \<open>
  The states a manager can be in: those its public methods lead to from the constructor,
  while the collaborators change on their own in between.
\<close>

inductive reachable :: "('n, 'w) env \<Rightarrow> ('n, 'w) state \<Rightarrow> bool" for env :: "('n, 'w) env" where
  constructed: "reachable env (newBrowserManager n w)"
| outside: "reachable env s \<Longrightarrow> reachable env (s\<lparr>net := n, world := w\<rparr>)"
| called_getMcpClient: "reachable env s \<Longrightarrow> reachable env (snd (getMcpClient env s))"
| called_getPage: "reachable env s \<Longrightarrow> reachable env (snd (getPage env s))"
| called_ensureConnection: "reachable env s \<Longrightarrow> reachable env (snd (ensureConnection env s))"

text \<open>The calls that \<^verbatim>\<open>getFreePort\<close> makes.\<close>

fun is_socket :: "call \<Rightarrow> bool" where
  "is_socket GetFreePort = True"
| "is_socket CreateServer = True"
| "is_socket (Unref srv) = True"
| "is_socket (OnError srv) = True"
| "is_socket (Listen srv port) = True"
| "is_socket (Address srv) = True"
| "is_socket (Close srv) = True"
| "is_socket c = False"

fun is_Listen :: "call \<Rightarrow> bool" where
  "is_Listen (Listen srv port) = True"
| "is_Listen c = False"

subsection \<open>A simulated set of collaborators\<close>

text \<open>
  Collaborators to run the model on. The socket layer hands out the ports of a list, and
  fails to listen when the list is empty. The driver numbers the browsers it launches; a
  browser is connected until it is put on the list \<open>down\<close>. The registry is an association
  list, and a client is connected once \<open>connect\<close> has put it on the list \<open>connected\<close>.
  Two switches make \<^verbatim>\<open>newContext\<close> and \<^verbatim>\<open>connect\<close> fail.
\<close>

record netsim =
  created :: nat
  free :: "nat list"

record sim =
  launches :: nat
  down :: "browser list"
  registered :: "(string \<times> client) list"
  connected :: "client list"
  contextFails :: bool
  connectFails :: bool

definition sim_env :: "(netsim, sim) env" where
  "sim_env =
     \<lparr>createServer = (\<lambda>n. (ServerRef (created n), n\<lparr>created := Suc (created n)\<rparr>)),
      listen = (\<lambda>srv port n. (if free n = [] then Some (Error ''listen EMFILE'') else None, n)),
      address = (\<lambda>srv n. case free n of [] \<Rightarrow> AddressNull | p # ps \<Rightarrow> AddressInfo ''::'' ''IPv6'' p),
      close = (\<lambda>srv n. n\<lparr>free := tl (free n)\<rparr>),
      browserAgentSettings = None,
      launch = (\<lambda>h args w. (Inr (BrowserRef (launches w)), w\<lparr>launches := Suc (launches w)\<rparr>)),
      isConnected = (\<lambda>b w. b \<notin> set (down w)),
      newContext = (\<lambda>b w. if contextFails w then (Inl (Error ''Target closed''), w)
                           else (case b of BrowserRef i \<Rightarrow> (Inr (ContextRef i), w))),
      newPage = (\<lambda>ctx w. case ctx of ContextRef i \<Rightarrow> (Inr (PageRef i), w)),
      getMcpClientManager = (\<lambda>w. True),
      getClient = (\<lambda>name w. map_of (registered w) name),
      maybeDiscoverMcpServer = (\<lambda>name cmd args w.
         (None, w\<lparr>registered := (name, ClientRef (length (registered w))) # registered w\<rparr>)),
      getStatus = (\<lambda>c w. if c \<in> set (connected w) then ''connected'' else ''disconnected''),
      connect = (\<lambda>c w. if connectFails w then (Some (Error ''Connection closed''), w)
                         else (None, w\<lparr>connected := c # connected w\<rparr>)),
      callTool = (\<lambda>c name args w. (Inr None, w))\<rparr>"

definition sim_net :: netsim where
  "sim_net = \<lparr>created = 0, free = [54213]\<rparr>"

definition sim_world :: sim where
  "sim_world = \<lparr>launches = 0, down = [], registered = [], connected = [],
                 contextFails = False, connectFails = False\<rparr>"

text \<open>
  Six states of a manager with these collaborators: as constructed; after a first
  \<^verbatim>\<open>getPage\<close>; after that, with the browser process gone; the same, with \<^verbatim>\<open>newContext\<close>
  failing from then on; as constructed, with \<^verbatim>\<open>connect\<close> failing; as constructed, with no
  port to hand out.
\<close>

definition sim_new :: "(netsim, sim) state" where
  "sim_new = newBrowserManager sim_net sim_world"

definition sim_ready :: "(netsim, sim) state" where
  "sim_ready = snd (getPage sim_env sim_new)"

definition sim_browser_died :: "(netsim, sim) state" where
  "sim_browser_died = sim_ready\<lparr>world := (world sim_ready)\<lparr>down := [BrowserRef 0]\<rparr>\<rparr>"

definition sim_context_fails :: "(netsim, sim) state" where
  "sim_context_fails =
     sim_ready\<lparr>world := (world sim_ready)\<lparr>down := [BrowserRef 0], contextFails := True\<rparr>\<rparr>"


definition sim_no_port :: "(netsim, sim) state" where
  "sim_no_port = newBrowserManager (sim_net\<lparr>free := []\<rparr>) sim_world"


section \<open>Properties\<close>

subsection \<open>Decimal numerals\<close>

lemma char_digit_digit_char: "d < 10 \<Longrightarrow> char_digit (digit_char d) = d"
  by (simp add: char_digit_def digit_char_def)

lemma nat_of_string_of_nat: "nat_of_string (string_of_nat n) = n"
proof (induction n rule: string_of_nat.induct)
  case (1 n)
  show ?case
  proof (cases "n < 10")
    case True
    then show ?thesis
      by (simp add: string_of_nat.simps [of n] nat_of_string_def char_digit_digit_char)
  next
    case False
    with 1 have ih: "nat_of_string (string_of_nat (n div 10)) = n div 10" by simp
    have "nat_of_string (string_of_nat n) = 10 * nat_of_string (string_of_nat (n div 10)) + char_digit (digit_char (n mod 10))"
      using False by (simp add: string_of_nat.simps [of n] nat_of_string_def)
    then show ?thesis using ih by (simp add: char_digit_digit_char)
  qed
qed

lemma string_of_nat_inject: "string_of_nat m = string_of_nat n \<longleftrightarrow> m = n"
  by (metis nat_of_string_of_nat)

lemma string_of_nat_small: "n < 10 \<Longrightarrow> string_of_nat n = [digit_char n]"
  by (simp add: string_of_nat.simps [of n])

lemma string_of_nat_large:
  "10 \<le> n \<Longrightarrow> string_of_nat n = string_of_nat (n div 10) @ [digit_char (n mod 10)]"
  by (simp add: string_of_nat.simps [of n])

lemma digit_char_numeral:
  "digit_char 0 = CHR ''0''" "digit_char 1 = CHR ''1''" "digit_char 2 = CHR ''2''"
  "digit_char 3 = CHR ''3''" "digit_char 4 = CHR ''4''" "digit_char 5 = CHR ''5''"
  "digit_char 6 = CHR ''6''" "digit_char 7 = CHR ''7''" "digit_char 8 = CHR ''8''"
  "digit_char 9 = CHR ''9''" "digit_char (Suc 0) = CHR ''1''"
  by (simp_all add: digit_char_def char_of_def bit_Suc_0_iff)

lemmas decimal = string_of_nat_small string_of_nat_large digit_char_numeral

subsection \<open>What each function changes and which calls it makes\<close>

lemmas steps = await_def invoke_def raised_def emit_def

lemmas manager_defs = getFreePort_def launchBrowser_def resolveClient_def connectMcp_def
  portStage_def browserStage_def clientStage_def ensureBrowserLaunched_def ensureConnection_def
  getMcpClient_def getPage_def

lemmas sim_defs = sim_env_def sim_net_def sim_world_def newBrowserManager_def headlessMode_def
  launchArgs_def registerArgs_def clientName_def browserUrl_def


lemma getFreePort_frame:
  "getFreePort env s = (r, s') \<Longrightarrow>
     mcpClient s' = mcpClient s \<and> browser s' = browser s \<and> page s' = page s \<and>
     remoteDebuggingPort s' = remoteDebuggingPort s \<and> world s' = world s"
  by (auto simp: getFreePort_def Let_def split: prod.splits option.splits address.splits if_splits)

lemma getFreePort_nonzero: "getFreePort env s = (Inr p, s') \<Longrightarrow> p \<noteq> 0"
  by (auto simp: getFreePort_def Let_def split: prod.splits option.splits address.splits if_splits)

lemma getFreePort_filter:
  "getFreePort env s = (r, s') \<Longrightarrow> (\<And>c. is_socket c \<Longrightarrow> \<not> P c) \<Longrightarrow>
     filter P (calls s') = filter P (calls s)"
  by (auto simp: getFreePort_def Let_def split: prod.splits option.splits address.splits if_splits)

lemma getFreePort_count:
  "getFreePort env s = (r, s') \<Longrightarrow>
     count_list (calls s') GetFreePort = Suc (count_list (calls s) GetFreePort)"
  by (auto simp: getFreePort_def Let_def split: prod.splits option.splits address.splits if_splits)

lemma launchBrowser_frame:
  "launchBrowser env port s = (r, s') \<Longrightarrow>
     mcpClient s' = mcpClient s \<and> remoteDebuggingPort s' = remoteDebuggingPort s \<and> net s' = net s"
  by (auto simp: launchBrowser_def steps Let_def split: prod.splits sum.splits)

lemma launchBrowser_filter:
  "launchBrowser env port s = (r, s') \<Longrightarrow>
   (\<And>m. \<not> P (Log m)) \<Longrightarrow> (\<And>b. \<not> P (NewContext b)) \<Longrightarrow> (\<And>c. \<not> P (NewPage c)) \<Longrightarrow>
     filter P (calls s') = filter P (calls s) @ filter P [Launch (headlessMode env) (launchArgs port)]"
  by (auto simp: launchBrowser_def steps Let_def split: prod.splits sum.splits)

lemma launchBrowser_Inr:
  "launchBrowser env port s = (Inr u, s') \<Longrightarrow>
     \<exists>b ctx pg w1 w2.
       launch env (headlessMode env) (launchArgs port) (world s) = (Inr b, w1) \<and>
       newContext env b w1 = (Inr ctx, w2) \<and> newPage env ctx w2 = (Inr pg, world s') \<and>
       browser s' = Some b \<and> page s' = Some pg"
  by (auto simp: launchBrowser_def steps Let_def split: prod.splits sum.splits)

lemma launchBrowser_Inl:
  "launchBrowser env port s = (Inl e, s') \<Longrightarrow>
     page s' = page s \<and> (browser s' = browser s \<or> browser s' \<noteq> None)"
  by (auto simp: launchBrowser_def steps Let_def split: prod.splits sum.splits)

lemma connectMcp_frame:
  "connectMcp env port s = (r, s') \<Longrightarrow>
     browser s' = browser s \<and> page s' = page s \<and>
     remoteDebuggingPort s' = remoteDebuggingPort s \<and> net s' = net s"
  by (auto simp: connectMcp_def resolveClient_def steps Let_def
      split: prod.splits sum.splits option.splits if_splits)

lemma connectMcp_filter:
  "connectMcp env port s = (r, s') \<Longrightarrow>
   (\<And>m. \<not> P (Log m)) \<Longrightarrow> \<not> P GetMcpClientManager \<Longrightarrow> (\<And>n. \<not> P (GetClient n)) \<Longrightarrow>
   (\<And>c. \<not> P (GetStatus c)) \<Longrightarrow> (\<And>c. \<not> P (Connect c)) \<Longrightarrow>
   (\<And>n c a. \<not> P (MaybeDiscoverMcpServer n c a)) \<Longrightarrow>
     filter P (calls s') = filter P (calls s)"
  by (auto simp: connectMcp_def resolveClient_def steps Let_def
      split: prod.splits sum.splits option.splits if_splits)

lemma portStage_stored:
  "remoteDebuggingPort s = Some p \<Longrightarrow> p \<noteq> 0 \<Longrightarrow> portStage env s = (Inr p, s)"
  by (simp add: portStage_def)

lemma portStage_allocates:
  "\<not> truthy (remoteDebuggingPort s) \<Longrightarrow>
     portStage env s = await (getFreePort env s) (\<lambda>p s1. (Inr p, s1\<lparr>remoteDebuggingPort := Some p\<rparr>))"
  by (auto simp: portStage_def truthy_def split: option.splits)

lemma portStage_cases:
  assumes "portStage env s = (r, s1)"
  obtains (stored) p where "remoteDebuggingPort s = Some p" "p \<noteq> 0" "r = Inr p" "s1 = s"
  | (failed) e where "\<not> truthy (remoteDebuggingPort s)" "getFreePort env s = (Inl e, s1)" "r = Inl e"
  | (allocated) p s0 where "\<not> truthy (remoteDebuggingPort s)" "getFreePort env s = (Inr p, s0)"
      "r = Inr p" "s1 = s0\<lparr>remoteDebuggingPort := Some p\<rparr>"
proof (cases "truthy (remoteDebuggingPort s)")
  case True
  then obtain p where p: "remoteDebuggingPort s = Some p" "p \<noteq> 0"
    by (auto simp: truthy_def split: option.splits)
  from assms have "r = Inr p" "s1 = s"
    by (simp_all add: portStage_stored [OF p])
  with p show ?thesis by (rule stored)
next
  case False
  obtain r0 s0 where g: "getFreePort env s = (r0, s0)" by (cases "getFreePort env s")
  show ?thesis
  proof (cases r0)
    case (Inl e)
    with assms g have "r = Inl e" "s0 = s1"
      by (simp_all add: portStage_allocates [OF False] await_def)
    with False g Inl show ?thesis by (intro failed) simp_all
  next
    case (Inr p)
    with assms g have "r = Inr p" "s1 = s0\<lparr>remoteDebuggingPort := Some p\<rparr>"
      by (simp_all add: portStage_allocates [OF False] await_def)
    with False g Inr show ?thesis by (intro allocated) simp_all
  qed
qed

lemma portStage_frame:
  "portStage env s = (r, s1) \<Longrightarrow>
     mcpClient s1 = mcpClient s \<and> browser s1 = browser s \<and> page s1 = page s \<and> world s1 = world s"
  by (erule portStage_cases) (auto dest: getFreePort_frame)

lemma portStage_Inr:
  "portStage env s = (Inr p, s1) \<Longrightarrow> remoteDebuggingPort s1 = Some p \<and> p \<noteq> 0"
  by (erule portStage_cases) (auto dest: getFreePort_nonzero)

lemma portStage_filter:
  "portStage env s = (r, s1) \<Longrightarrow> (\<And>c. is_socket c \<Longrightarrow> \<not> P c) \<Longrightarrow>
     filter P (calls s1) = filter P (calls s)"
  by (erule portStage_cases) (auto dest: getFreePort_filter)

lemma browserStage_frame:
  "browserStage env p s = (r, s') \<Longrightarrow>
     mcpClient s' = mcpClient s \<and> remoteDebuggingPort s' = remoteDebuggingPort s \<and> net s' = net s"
  by (auto simp: browserStage_def emit_def split: option.splits if_splits dest!: launchBrowser_frame)

lemma browserStage_skip:
  "browserLive env s \<Longrightarrow> browserStage env p s = (r, s') \<Longrightarrow>
     r = Inr () \<and> browser s' = browser s \<and> page s' = page s \<and> world s' = world s"
  by (auto simp: browserStage_def browserLive_def emit_def split: option.splits if_splits)

lemma browserStage_filter:
  "browserStage env p s = (r, s') \<Longrightarrow>
   (\<And>m. \<not> P (Log m)) \<Longrightarrow> (\<And>b. \<not> P (NewContext b)) \<Longrightarrow> (\<And>c. \<not> P (NewPage c)) \<Longrightarrow>
   (\<And>b. \<not> P (IsConnected b)) \<Longrightarrow>
     filter P (calls s') = filter P (calls s) @
       (if browserLive env s then [] else filter P [Launch (headlessMode env) (launchArgs p)])"
  by (auto simp: browserStage_def browserLive_def emit_def split: option.splits if_splits
           dest!: launchBrowser_filter [where P = P])

lemma clientStage_frame:
  "clientStage env p s = (r, s') \<Longrightarrow>
     browser s' = browser s \<and> page s' = page s \<and>
     remoteDebuggingPort s' = remoteDebuggingPort s \<and> net s' = net s"
  by (auto simp: clientStage_def emit_def split: option.splits if_splits dest!: connectMcp_frame)

lemma clientStage_filter:
  "clientStage env p s = (r, s') \<Longrightarrow>
   (\<And>m. \<not> P (Log m)) \<Longrightarrow> \<not> P GetMcpClientManager \<Longrightarrow> (\<And>n. \<not> P (GetClient n)) \<Longrightarrow>
   (\<And>c. \<not> P (GetStatus c)) \<Longrightarrow> (\<And>c. \<not> P (Connect c)) \<Longrightarrow>
   (\<And>n c a. \<not> P (MaybeDiscoverMcpServer n c a)) \<Longrightarrow>
     filter P (calls s') = filter P (calls s)"
  by (auto simp: clientStage_def emit_def split: option.splits if_splits
           dest!: connectMcp_filter [where P = P])

lemma ensureBrowserLaunched_cases:
  assumes "ensureBrowserLaunched env s = (r, s')"
  obtains (port_failed) e where "portStage env s = (Inl e, s')" "r = Inl e"
  | (browser_failed) p s1 e where "portStage env s = (Inr p, s1)"
      "browserStage env p s1 = (Inl e, s')" "r = Inl e"
  | (client_ran) p s1 s2 where "portStage env s = (Inr p, s1)"
      "browserStage env p s1 = (Inr (), s2)" "clientStage env p s2 = (r, s')"
proof -
  obtain r1 s1 where st1: "portStage env s = (r1, s1)" by (cases "portStage env s")
  show ?thesis
  proof (cases r1)
    case (Inl e)
    with st1 assms have "portStage env s = (Inl e, s')" "r = Inl e"
      by (simp_all add: ensureBrowserLaunched_def await_def)
    then show ?thesis by (rule port_failed)
  next
    case (Inr p)
    obtain r2 s2 where st2: "browserStage env p s1 = (r2, s2)" by (cases "browserStage env p s1")
    from st1 Inr have st1': "portStage env s = (Inr p, s1)" by simp
    show ?thesis
    proof (cases r2)
      case (Inl e)
      with st1' st2 assms have "browserStage env p s1 = (Inl e, s')" "r = Inl e"
        by (simp_all add: ensureBrowserLaunched_def await_def)
      with st1' show ?thesis by (rule browser_failed)
    next
      case (Inr u)
      with st1' st2 assms have "browserStage env p s1 = (Inr (), s2)" "clientStage env p s2 = (r, s')"
        by (simp_all add: ensureBrowserLaunched_def await_def)
      with st1' show ?thesis by (rule client_ran)
    qed
  qed
qed

subsection \<open>Facts on whole calls and on sequences of calls\<close>

lemma socket_not_other:
  "is_socket c \<Longrightarrow> \<not> is_Launch c \<and> \<not> is_Register c \<and> \<not> is_Connect c \<and> \<not> is_CallTool c"
  by (cases c) simp_all

lemma browserLive_cong:
  "browser s' = browser s \<Longrightarrow> world s' = world s \<Longrightarrow> browserLive env s' = browserLive env s"
  by (simp add: browserLive_def split: option.splits)

lemma later_stages_keep_port:
  assumes "browserStage env p s1 = (r2, s2)"
  shows "remoteDebuggingPort s2 = remoteDebuggingPort s1"
    and "count_list (calls s2) GetFreePort = count_list (calls s1) GetFreePort"
  using browserStage_frame [OF assms] browserStage_filter [OF assms, of "(=) GetFreePort"]
  by (auto simp: count_list_eq_length_filter)

lemma client_stage_keeps_port:
  assumes "clientStage env p s2 = (r, s')"
  shows "remoteDebuggingPort s' = remoteDebuggingPort s2"
    and "count_list (calls s') GetFreePort = count_list (calls s2) GetFreePort"
  using clientStage_frame [OF assms] clientStage_filter [OF assms, of "(=) GetFreePort"]
  by (auto simp: count_list_eq_length_filter)

lemma ensureConnection_after_port_stage:
  assumes "portStage env s = (Inr p, s1)"
  shows "remoteDebuggingPort (snd (ensureConnection env s)) = Some p"
    and "count_list (calls (snd (ensureConnection env s))) GetFreePort = count_list (calls s1) GetFreePort"
proof -
  obtain r s' where run: "ensureBrowserLaunched env s = (r, s')"
    by (cases "ensureBrowserLaunched env s")
  from run have "remoteDebuggingPort s' = Some p \<and>
                 count_list (calls s') GetFreePort = count_list (calls s1) GetFreePort"
  proof (cases rule: ensureBrowserLaunched_cases)
    case (port_failed e)
    with assms show ?thesis by simp
  next
    case (browser_failed q t1 e)
    with assms have "q = p" "t1 = s1" by simp_all
    with browser_failed later_stages_keep_port [of env p s1 "Inl e" s'] portStage_Inr [OF assms]
    show ?thesis by simp
  next
    case (client_ran q t1 s2)
    with assms have "q = p" "t1 = s1" by simp_all
    with client_ran later_stages_keep_port [of env p s1 "Inr ()" s2]
      client_stage_keeps_port [of env p s2 r s'] portStage_Inr [OF assms]
    show ?thesis by simp
  qed
  with run show "remoteDebuggingPort (snd (ensureConnection env s)) = Some p"
    and "count_list (calls (snd (ensureConnection env s))) GetFreePort = count_list (calls s1) GetFreePort"
    by (simp_all add: ensureConnection_def)
qed

lemma outsideChange_fields:
  "mcpClient (outsideChange change s) = mcpClient s"
  "browser (outsideChange change s) = browser s"
  "page (outsideChange change s) = page s"
  "remoteDebuggingPort (outsideChange change s) = remoteDebuggingPort s"
  "calls (outsideChange change s) = calls s"
  by (simp_all add: outsideChange_def split: prod.splits)

lemma ensureConnections_port_stored:
  "remoteDebuggingPort s = Some p \<Longrightarrow> p \<noteq> 0 \<Longrightarrow>
     remoteDebuggingPort (ensureConnections env changes s) = Some p \<and>
     count_list (calls (ensureConnections env changes s)) GetFreePort = count_list (calls s) GetFreePort"
proof (induction changes arbitrary: s)
  case Nil
  then show ?case by simp
next
  case (Cons change changes)
  let ?s0 = "outsideChange change s"
  let ?s1 = "snd (ensureConnection env ?s0)"
  from Cons.prems have st: "portStage env ?s0 = (Inr p, ?s0)"
    by (simp add: portStage_stored outsideChange_fields)
  from ensureConnection_after_port_stage [OF st]
  have "remoteDebuggingPort ?s1 = Some p"
    and "count_list (calls ?s1) GetFreePort = count_list (calls s) GetFreePort"
    by (simp_all add: outsideChange_fields)
  with Cons.IH [of ?s1] Cons.prems show ?case by simp
qed

lemma browserStage_Inr:
  assumes "browserStage env p s = (Inr u, s')" and "\<not> browserLive env s"
  shows "\<exists>b ctx pg w1 w2.
           launch env (headlessMode env) (launchArgs p) (world s) = (Inr b, w1) \<and>
           newContext env b w1 = (Inr ctx, w2) \<and> newPage env ctx w2 = (Inr pg, world s') \<and>
           browser s' = Some b \<and> page s' = Some pg"
  using assms
  by (auto simp: browserStage_def browserLive_def emit_def split: option.splits if_splits
           dest!: launchBrowser_Inr)








lemma browserStage_inv:
  "browserStage env p s = (r, s') \<Longrightarrow> (page s \<noteq> None \<longrightarrow> browser s \<noteq> None) \<Longrightarrow>
     page s' \<noteq> None \<longrightarrow> browser s' \<noteq> None"
  by (cases r)
     (auto simp: browserStage_def emit_def split: option.splits if_splits
           dest!: launchBrowser_Inr launchBrowser_Inl)

lemma ensureBrowserLaunched_inv:
  assumes "ensureBrowserLaunched env s = (r, s')" and "page s \<noteq> None \<longrightarrow> browser s \<noteq> None"
  shows "page s' \<noteq> None \<longrightarrow> browser s' \<noteq> None"
  using assms(1)
proof (cases rule: ensureBrowserLaunched_cases)
  case (port_failed e)
  from portStage_frame [OF port_failed(1)] assms(2) show ?thesis by simp
next
  case (browser_failed p s1 e)
  from portStage_frame [OF browser_failed(1)] assms(2)
  have "page s1 \<noteq> None \<longrightarrow> browser s1 \<noteq> None" by simp
  from browserStage_inv [OF browser_failed(2) this] show ?thesis .
next
  case (client_ran p s1 s2)
  from portStage_frame [OF client_ran(1)] assms(2)
  have "page s1 \<noteq> None \<longrightarrow> browser s1 \<noteq> None" by simp
  from browserStage_inv [OF client_ran(2) this] clientStage_frame [OF client_ran(3)]
  show ?thesis by simp
qed

lemma ensureBrowserLaunched_inv_snd:
  "page s \<noteq> None \<longrightarrow> browser s \<noteq> None \<Longrightarrow>
     page (snd (ensureBrowserLaunched env s)) \<noteq> None \<longrightarrow> browser (snd (ensureBrowserLaunched env s)) \<noteq> None"
  using ensureBrowserLaunched_inv [of env s "fst (ensureBrowserLaunched env s)" "snd (ensureBrowserLaunched env s)"]
  by simp

lemma await_snd_same:
  "(\<And>a t. snd (k a t) = t) \<Longrightarrow> snd (await x k) = snd x"
  by (cases x) (auto simp: await_def split: sum.splits)

lemma getPage_state:
  "snd (getPage env s) = (case page s of None \<Rightarrow> snd (ensureBrowserLaunched env s) | Some pg \<Rightarrow> s)"
  by (simp add: getPage_def await_snd_same split: option.splits)

lemma getMcpClient_state:
  "snd (getMcpClient env s) =
     (case mcpClient s of
        None \<Rightarrow> snd (ensureBrowserLaunched env s)
      | Some c \<Rightarrow>
          if getStatus env c (world s) = ''connected'' then emit (GetStatus c) s
          else snd (ensureBrowserLaunched env (emit (GetStatus c) s)))"
  by (simp add: getMcpClient_def ensureConnection_def await_snd_same Let_def split: option.splits)

lemma reachable_page_browser:
  "reachable env s \<Longrightarrow> page s \<noteq> None \<longrightarrow> browser s \<noteq> None"
proof (induction rule: reachable.induct)
  case (constructed n w)
  show ?case by (simp add: newBrowserManager_def)
next
  case (outside s n w)
  then show ?case by simp
next
  case (called_getMcpClient s)
  show ?case
  proof (cases "mcpClient s")
    case None
    with ensureBrowserLaunched_inv_snd [OF called_getMcpClient.IH, of env] show ?thesis
      by (simp add: getMcpClient_state)
  next
    case (Some c)
    have logged: "page (emit (GetStatus c) s) \<noteq> None \<longrightarrow> browser (emit (GetStatus c) s) \<noteq> None"
      using called_getMcpClient.IH by (simp add: emit_def)
    from Some ensureBrowserLaunched_inv_snd [OF logged, of env] logged show ?thesis
      by (simp add: getMcpClient_state)
  qed
next
  case (called_getPage s)
  with ensureBrowserLaunched_inv_snd [OF called_getPage.IH, of env] show ?case
    by (cases "page s") (simp_all add: getPage_state)
next
  case (called_ensureConnection s)
  with ensureBrowserLaunched_inv_snd [OF called_ensureConnection.IH, of env] show ?case
    by (simp add: ensureConnection_def)
qed

lemma ensureBrowserLaunched_no_CallTool:
  assumes "ensureBrowserLaunched env s = (r, s')"
  shows "filter is_CallTool (calls s') = filter is_CallTool (calls s)"
  using assms
proof (cases rule: ensureBrowserLaunched_cases)
  case (port_failed e)
  show ?thesis by (rule portStage_filter [OF port_failed(1)]) (simp add: socket_not_other)
next
  case (browser_failed p s1 e)
  have "filter is_CallTool (calls s1) = filter is_CallTool (calls s)"
    by (rule portStage_filter [OF browser_failed(1)]) (simp add: socket_not_other)
  with browserStage_filter [OF browser_failed(2), of is_CallTool] show ?thesis by simp
next
  case (client_ran p s1 s2)
  have "filter is_CallTool (calls s1) = filter is_CallTool (calls s)"
    by (rule portStage_filter [OF client_ran(1)]) (simp add: socket_not_other)
  with browserStage_filter [OF client_ran(2), of is_CallTool]
    clientStage_filter [OF client_ran(3), of is_CallTool] show ?thesis by simp
qed

lemma getMcpClient_no_CallTool:
  "filter is_CallTool (calls (snd (getMcpClient env s))) = filter is_CallTool (calls s)"
proof (cases "mcpClient s")
  case None
  with ensureBrowserLaunched_no_CallTool [of env s "fst (ensureBrowserLaunched env s)"
      "snd (ensureBrowserLaunched env s)"]
  show ?thesis by (simp add: getMcpClient_state)
next
  case (Some c)
  with ensureBrowserLaunched_no_CallTool [of env "emit (GetStatus c) s"
      "fst (ensureBrowserLaunched env (emit (GetStatus c) s))"
      "snd (ensureBrowserLaunched env (emit (GetStatus c) s))"]
  show ?thesis by (simp add: getMcpClient_state emit_def)
qed

subsection \<open>The simulated manager, run\<close>

text \<open>
  The state after a first \<^verbatim>\<open>getPage\<close> on a new manager: the port 54213 is stored, one
  browser has been launched on it, and one client is registered under the name of the port
  and connected.
\<close>

lemma sim_ready_eq:
  "sim_ready =
     \<lparr>mcpClient = Some (ClientRef 0), browser = Some (BrowserRef 0), page = Some (PageRef 0),
      remoteDebuggingPort = Some 54213,
      net = \<lparr>created = 1, free = []\<rparr>,
      world = \<lparr>launches = 1, down = [], registered = [(''chrome-devtools-54213'', ClientRef 0)],
               connected = [ClientRef 0], contextFails = False, connectFails = False\<rparr>,
      calls =
        [GetFreePort, CreateServer, Unref (ServerRef 0), OnError (ServerRef 0),
         Listen (ServerRef 0) 0, Address (ServerRef 0), Close (ServerRef 0),
         Log ''Launching Chrome via Playwright...'',
         Launch False [''--remote-debugging-port=54213'', ''--window-size=1024,1024''],
         NewContext (BrowserRef 0), NewPage (ContextRef 0),
         Log ''Browser launched successfully on port 54213.'',
         GetMcpClientManager, GetClient ''chrome-devtools-54213'',
         Log ''Registering chrome-devtools-mcp server (chrome-devtools-54213) dynamically...'',
         MaybeDiscoverMcpServer ''chrome-devtools-54213'' ''npx''
           [''-y'', ''chrome-devtools-mcp@latest'', ''--browser-url'', ''http://127.0.0.1:54213''],
         GetClient ''chrome-devtools-54213'', GetStatus (ClientRef 0), Connect (ClientRef 0)]\<rparr>"
  by (simp add: sim_ready_def sim_new_def manager_defs steps sim_defs decimal)

lemma sim_new_port: "fst (getFreePort sim_env sim_new) = Inr 54213"
  by (simp add: sim_new_def getFreePort_def sim_defs)

subsection \<open>The port is allocated once\<close>

text \<open>
  Claim C1. Take a manager with no port stored and any sequence of calls of
  \<^verbatim>\<open>ensureConnection\<close> (\<^verbatim>\<open>ensureReady\<close>), one at least, with the collaborators changing in any
  way between the calls. When the allocation of the first call succeeds with \<open>p\<close>, then
  after the whole sequence \<^verbatim>\<open>getFreePort\<close> has been entered exactly once more than before
  it, and the stored port is \<open>p\<close>. Nothing is assumed of the browser and client stages:
  they may fail in any of the calls. Since the sequence is arbitrary, the same holds after
  each of its calls.
\<close>

theorem port_allocated_once:
  assumes "\<not> truthy (remoteDebuggingPort s)"
      and "getFreePort env (outsideChange change s) = (Inr p, s1)"
  shows "remoteDebuggingPort (ensureConnections env (change # changes) s) = Some p \<and>
         count_list (calls (ensureConnections env (change # changes) s)) GetFreePort =
           Suc (count_list (calls s) GetFreePort)"
proof -
  let ?s0 = "outsideChange change s"
  let ?s2 = "snd (ensureConnection env ?s0)"
  from assms have st: "portStage env ?s0 = (Inr p, s1\<lparr>remoteDebuggingPort := Some p\<rparr>)"
    by (simp add: portStage_allocates await_def outsideChange_fields)
  from getFreePort_nonzero [OF assms(2)] have "p \<noteq> 0" .
  from ensureConnection_after_port_stage [OF st] getFreePort_count [OF assms(2)]
  have "remoteDebuggingPort ?s2 = Some p"
    and "count_list (calls ?s2) GetFreePort = Suc (count_list (calls s) GetFreePort)"
    by (simp_all add: outsideChange_fields)
  with ensureConnections_port_stored [of ?s2 p env changes] \<open>p \<noteq> 0\<close> show ?thesis
    by simp
qed

theorem port_allocated_once_witness:
  "\<not> truthy (remoteDebuggingPort sim_new) \<and>
   fst (getFreePort sim_env (outsideChange (\<lambda>x. x) sim_new)) = Inr 54213 \<and>
   remoteDebuggingPort
     (ensureConnections sim_env
        [\<lambda>x. x, \<lambda>x. (fst x, (snd x)\<lparr>down := [BrowserRef 0]\<rparr>), \<lambda>x. x] sim_new) = Some 54213 \<and>
   count_list
     (calls (ensureConnections sim_env
        [\<lambda>x. x, \<lambda>x. (fst x, (snd x)\<lparr>down := [BrowserRef 0]\<rparr>), \<lambda>x. x] sim_new))
     GetFreePort = 1"
proof -
  have same: "outsideChange (\<lambda>x. x) sim_new = sim_new"
    by (simp add: outsideChange_def)
  have a: "\<not> truthy (remoteDebuggingPort sim_new)"
    by (simp add: sim_new_def newBrowserManager_def truthy_def)
  have b: "getFreePort sim_env (outsideChange (\<lambda>x. x) sim_new) =
             (Inr 54213, snd (getFreePort sim_env sim_new))"
    by (simp add: prod_eq_iff sim_new_port same)
  have c: "calls sim_new = []"
    by (simp add: sim_new_def newBrowserManager_def)
  from port_allocated_once [where s = sim_new and env = sim_env and change = "\<lambda>x. x"
      and changes = "[\<lambda>x. (fst x, (snd x)\<lparr>down := [BrowserRef 0]\<rparr>), \<lambda>x. x]" and p = 54213
      and ?s1.0 = "snd (getFreePort sim_env sim_new)"] a b c sim_new_port same
  show ?thesis by simp
qed

subsection \<open>The browser stage\<close>

text \<open>
  Claim C2, amended. Take a call of \<^verbatim>\<open>ensureConnection\<close> whose port stage succeeds with the
  port \<open>p\<close>; \<open>p\<close> is then the stored port. If a browser is stored and reports connected,
  \<^verbatim>\<open>launch\<close> is not called and the stored browser and page stay. Otherwise \<^verbatim>\<open>launch\<close> is
  called exactly once, with \<^verbatim>\<open>--remote-debugging-port=\<close>\<open>p\<close> and the window size as its
  arguments; and if the browser stage does not throw (\<^verbatim>\<open>launch\<close>, \<^verbatim>\<open>newContext\<close> and
  \<^verbatim>\<open>newPage\<close> all succeed), the stored browser is the one \<^verbatim>\<open>launch\<close> returned and the
  stored page is the one \<^verbatim>\<open>newPage\<close> returned for the context of that browser.
\<close>

theorem browser_stage_launch:
  assumes port: "portStage env s = (Inr p, s1)"
      and stage: "browserStage env p s1 = (r2, s2)"
      and run: "ensureConnection env s = (r, s')"
  shows "remoteDebuggingPort s' = Some p \<and>
         (if browserLive env s
          then filter is_Launch (calls s') = filter is_Launch (calls s) \<and>
               browser s' = browser s \<and> page s' = page s
          else filter is_Launch (calls s') = filter is_Launch (calls s) @
                 [Launch (headlessMode env)
                    [''--remote-debugging-port='' @ string_of_nat p, ''--window-size=1024,1024'']] \<and>
               (r2 = Inr () \<longrightarrow>
                  (\<exists>b ctx pg w1 w2.
                     launch env (headlessMode env)
                       [''--remote-debugging-port='' @ string_of_nat p, ''--window-size=1024,1024'']
                       (world s) = (Inr b, w1) \<and>
                     newContext env b w1 = (Inr ctx, w2) \<and> newPage env ctx w2 = (Inr pg, world s2) \<and>
                     browser s' = Some b \<and> page s' = Some pg)))"
proof -
  from run have run': "ensureBrowserLaunched env s = (r, s')" by (simp add: ensureConnection_def)
  from portStage_frame [OF port] have same: "browser s1 = browser s" "page s1 = page s" "world s1 = world s"
    by simp_all
  then have live: "browserLive env s1 = browserLive env s" by (intro browserLive_cong)
  have f1: "filter is_Launch (calls s1) = filter is_Launch (calls s)"
    by (rule portStage_filter [OF port]) (simp add: socket_not_other)
  have f2: "filter is_Launch (calls s2) = filter is_Launch (calls s) @
              (if browserLive env s then [] else [Launch (headlessMode env) (launchArgs p)])"
    using browserStage_filter [OF stage, of is_Launch] f1 live by simp
  from run' have later: "remoteDebuggingPort s' = remoteDebuggingPort s2 \<and> browser s' = browser s2 \<and>
       page s' = page s2 \<and> filter is_Launch (calls s') = filter is_Launch (calls s2)"
  proof (cases rule: ensureBrowserLaunched_cases)
    case (port_failed e)
    with port show ?thesis by simp
  next
    case (browser_failed q t1 e)
    with port stage show ?thesis by simp
  next
    case (client_ran q t1 t2)
    with port stage have "clientStage env p s2 = (r, s')" by simp
    from clientStage_frame [OF this] clientStage_filter [OF this, of is_Launch]
    show ?thesis by simp
  qed
  from browserStage_frame [OF stage] portStage_Inr [OF port] later
  have p: "remoteDebuggingPort s' = Some p" by simp
  show ?thesis
  proof (cases "browserLive env s")
    case True
    with live browserStage_skip [OF _ stage] same later f2 p show ?thesis by simp
  next
    case False
    have "r2 = Inr () \<longrightarrow>
            (\<exists>b ctx pg w1 w2.
               launch env (headlessMode env) (launchArgs p) (world s) = (Inr b, w1) \<and>
               newContext env b w1 = (Inr ctx, w2) \<and> newPage env ctx w2 = (Inr pg, world s2) \<and>
               browser s' = Some b \<and> page s' = Some pg)"
    proof
      assume "r2 = Inr ()"
      with stage have "browserStage env p s1 = (Inr (), s2)" by simp
      from browserStage_Inr [OF this] False live same later show "\<exists>b ctx pg w1 w2.
               launch env (headlessMode env) (launchArgs p) (world s) = (Inr b, w1) \<and>
               newContext env b w1 = (Inr ctx, w2) \<and> newPage env ctx w2 = (Inr pg, world s2) \<and>
               browser s' = Some b \<and> page s' = Some pg" by simp
    qed
    with False f2 later p show ?thesis by (simp add: launchArgs_def)
  qed
qed

theorem browser_stage_launch_witness:
  "fst (portStage sim_env sim_new) = Inr 54213 \<and>
   fst (browserStage sim_env 54213 (snd (portStage sim_env sim_new))) = Inr () \<and>
   \<not> browserLive sim_env sim_new \<and>
   remoteDebuggingPort sim_ready = Some 54213 \<and>
   filter is_Launch (calls sim_ready) =
     [Launch False [''--remote-debugging-port=54213'', ''--window-size=1024,1024'']] \<and>
   browser sim_ready = Some (BrowserRef 0) \<and> page sim_ready = Some (PageRef 0)"
proof -
  have a: "fst (portStage sim_env sim_new) = Inr 54213"
    by (simp add: sim_new_def portStage_def getFreePort_def await_def sim_defs)
  then have a': "portStage sim_env sim_new = (Inr 54213, snd (portStage sim_env sim_new))"
    by (simp add: prod_eq_iff)
  have b: "fst (browserStage sim_env 54213 (snd (portStage sim_env sim_new))) = Inr ()"
    by (simp add: sim_new_def portStage_def getFreePort_def browserStage_def launchBrowser_def
        steps sim_defs)
  then have b': "browserStage sim_env 54213 (snd (portStage sim_env sim_new)) =
             (Inr (), snd (browserStage sim_env 54213 (snd (portStage sim_env sim_new))))"
    by (simp add: prod_eq_iff)
  have c: "ensureConnection sim_env sim_new = (fst (ensureConnection sim_env sim_new), sim_ready)"
    by (simp add: sim_ready_def getPage_state ensureConnection_def sim_new_def newBrowserManager_def)
  have d: "\<not> browserLive sim_env sim_new"
    by (simp add: browserLive_def sim_new_def newBrowserManager_def)
  from browser_stage_launch [OF a' b' c] a b d show ?thesis
    by (simp add: sim_ready_eq)
qed

text \<open>
  As C2 is written, the page is replaced in every call in which the port stage succeeds
  and the stored browser is not connected. It is not when the browser stage throws: here
  the browser of a ready manager has died and \<^verbatim>\<open>newContext\<close> fails. \<^verbatim>\<open>launch\<close> is called
  once and its browser is stored, \<^verbatim>\<open>ensureConnection\<close> throws what \<^verbatim>\<open>newContext\<close> threw,
  and the stored page is still the page of the dead browser.
\<close>

theorem browser_stage_launch_counterexample:
  "remoteDebuggingPort sim_context_fails = Some 54213 \<and>
   browser sim_context_fails = Some (BrowserRef 0) \<and>
   \<not> isConnected sim_env (BrowserRef 0) (world sim_context_fails) \<and>
   page sim_context_fails = Some (PageRef 0) \<and>
   fst (ensureConnection sim_env sim_context_fails) = Inl (Error ''Target closed'') \<and>
   filter is_Launch (calls (snd (ensureConnection sim_env sim_context_fails))) =
     filter is_Launch (calls sim_context_fails) @
       [Launch False [''--remote-debugging-port=54213'', ''--window-size=1024,1024'']] \<and>
   browser (snd (ensureConnection sim_env sim_context_fails)) = Some (BrowserRef 1) \<and>
   page (snd (ensureConnection sim_env sim_context_fails)) = Some (PageRef 0)"
  by (simp add: sim_context_fails_def sim_ready_eq manager_defs steps sim_defs decimal)

subsection \<open>The accessor of the client\<close>

text \<open>
  Claim C3. When a client is stored and its status is \<^verbatim>\<open>connected\<close>, \<^verbatim>\<open>getMcpClient\<close>
  returns that client, and the only call it makes is that \<^verbatim>\<open>getStatus\<close>: the fields of the
  manager and the collaborators are as before, and nothing of \<^verbatim>\<open>ensureConnection\<close> has run
  (no allocation, no \<^verbatim>\<open>isConnected\<close>, no launch, no registration, no connect).
\<close>

theorem getMcpClient_connected:
  assumes "mcpClient s = Some c" and "getStatus env c (world s) = ''connected''"
  shows "getMcpClient env s = (Inr c, s\<lparr>calls := calls s @ [GetStatus c]\<rparr>)"
  using assms by (simp add: getMcpClient_def emit_def)

theorem getMcpClient_connected_witness:
  "mcpClient sim_ready = Some (ClientRef 0) \<and>
   getStatus sim_env (ClientRef 0) (world sim_ready) = ''connected'' \<and>
   getMcpClient sim_env sim_ready =
     (Inr (ClientRef 0), sim_ready\<lparr>calls := calls sim_ready @ [GetStatus (ClientRef 0)]\<rparr>)"
proof -
  have a: "mcpClient sim_ready = Some (ClientRef 0)"
    by (simp add: sim_ready_eq)
  have b: "getStatus sim_env (ClientRef 0) (world sim_ready) = ''connected''"
    by (simp add: sim_ready_eq sim_env_def)
  from getMcpClient_connected [OF a b] a b show ?thesis by simp
qed

subsection \<open>A failing allocation\<close>

text \<open>
  Claim C4. When the port stage has to allocate and \<^verbatim>\<open>getFreePort\<close> rejects with \<open>e\<close>,
  \<^verbatim>\<open>ensureConnection\<close> rejects with the same \<open>e\<close> and leaves the state as \<^verbatim>\<open>getFreePort\<close>
  left it: the four fields of the manager are unchanged, the driver, the registry and the
  clients have not been called (every new call in the log is one of the socket), and they
  are as they were, so a stored browser that was connected still is.
\<close>

theorem allocation_failure_propagates:
  assumes "\<not> truthy (remoteDebuggingPort s)"
      and "getFreePort env s = (Inl e, s1)"
  shows "ensureConnection env s = (Inl e, s1) \<and>
         mcpClient s1 = mcpClient s \<and> browser s1 = browser s \<and> page s1 = page s \<and>
         remoteDebuggingPort s1 = remoteDebuggingPort s \<and> world s1 = world s \<and>
         browserLive env s1 = browserLive env s \<and>
         filter (\<lambda>c. \<not> is_socket c) (calls s1) = filter (\<lambda>c. \<not> is_socket c) (calls s)"
  using assms getFreePort_frame [OF assms(2)]
    getFreePort_filter [OF assms(2), of "\<lambda>c. \<not> is_socket c"]
    browserLive_cong [of s1 s env]
  by (simp add: ensureConnection_def ensureBrowserLaunched_def portStage_allocates await_def)

theorem allocation_failure_propagates_witness:
  "\<not> truthy (remoteDebuggingPort sim_no_port) \<and>
   fst (getFreePort sim_env sim_no_port) = Inl (Error ''listen EMFILE'') \<and>
   fst (ensureConnection sim_env sim_no_port) = Inl (Error ''listen EMFILE'') \<and>
   filter (\<lambda>c. \<not> is_socket c) (calls (snd (ensureConnection sim_env sim_no_port))) = [] \<and>
   remoteDebuggingPort (snd (ensureConnection sim_env sim_no_port)) = None"
proof -
  have a: "\<not> truthy (remoteDebuggingPort sim_no_port)"
    by (simp add: sim_no_port_def newBrowserManager_def truthy_def)
  have b: "fst (getFreePort sim_env sim_no_port) = Inl (Error ''listen EMFILE'')"
    by (simp add: sim_no_port_def getFreePort_def sim_defs)
  then have b': "getFreePort sim_env sim_no_port =
             (Inl (Error ''listen EMFILE''), snd (getFreePort sim_env sim_no_port))"
    by (simp add: prod_eq_iff)
  have c: "calls sim_no_port = []" "remoteDebuggingPort sim_no_port = None"
    by (simp_all add: sim_no_port_def newBrowserManager_def)
  from allocation_failure_propagates [OF a b'] a b c show ?thesis by simp
qed

subsection \<open>A page needs a stored browser, not a connected one\<close>

text \<open>
  Claim C5, amended. In every reachable state, when \<^verbatim>\<open>getPage\<close> returns a page, that page
  is the stored one and a browser is stored: no page is handed out while the browser is
  absent. Whether the stored browser still reports connected is not asked when a page is
  already stored: \<^verbatim>\<open>getPage\<close> then returns with the state as it was, no call made.
\<close>

theorem getPage_needs_stored_browser:
  assumes "reachable env s" and "getPage env s = (Inr pg, s')"
  shows "page s' = Some pg \<and> (\<exists>b. browser s' = Some b) \<and> (page s \<noteq> None \<longrightarrow> s' = s)"
proof -
  from assms(2) have pg: "page s' = Some pg" and same: "page s \<noteq> None \<longrightarrow> s' = s"
    by (auto simp: getPage_def await_def split: option.splits sum.splits prod.splits)
  from assms have "reachable env s'"
    using reachable.called_getPage [of env s] by simp
  from reachable_page_browser [OF this] pg same show ?thesis by auto
qed

theorem getPage_needs_stored_browser_witness:
  "reachable sim_env sim_new \<and> fst (getPage sim_env sim_new) = Inr (PageRef 0) \<and>
   page sim_ready = Some (PageRef 0) \<and> browser sim_ready = Some (BrowserRef 0)"
proof -
  have a: "reachable sim_env sim_new"
    unfolding sim_new_def by (rule reachable.constructed)
  have b: "fst (getPage sim_env sim_new) = Inr (PageRef 0)"
    by (simp add: sim_new_def manager_defs steps sim_defs decimal)
  then have b': "getPage sim_env sim_new = (Inr (PageRef 0), sim_ready)"
    by (simp add: prod_eq_iff sim_ready_def)
  from getPage_needs_stored_browser [OF a b'] a b show ?thesis
    by (simp add: sim_ready_eq)
qed

text \<open>
  As C5 is written, \<^verbatim>\<open>getPage\<close> never returns a page whose browser reports not connected.
  It does: after a first \<^verbatim>\<open>getPage\<close> the browser process dies, which is a reachable
  state, and the next \<^verbatim>\<open>getPage\<close> returns the page of that browser.
\<close>

theorem getPage_needs_stored_browser_counterexample:
  "reachable sim_env sim_browser_died \<and>
   browser sim_browser_died = Some (BrowserRef 0) \<and>
   \<not> isConnected sim_env (BrowserRef 0) (world sim_browser_died) \<and>
   getPage sim_env sim_browser_died = (Inr (PageRef 0), sim_browser_died)"
proof -
  have "reachable sim_env sim_new"
    unfolding sim_new_def by (rule reachable.constructed)
  then have "reachable sim_env sim_ready"
    unfolding sim_ready_def by (rule reachable.called_getPage)
  then have "reachable sim_env (sim_ready\<lparr>net := net sim_ready,
      world := (world sim_ready)\<lparr>down := [BrowserRef 0]\<rparr>\<rparr>)"
    by (rule reachable.outside)
  then have "reachable sim_env sim_browser_died"
    by (simp add: sim_browser_died_def)
  then show ?thesis
    by (simp add: sim_browser_died_def sim_ready_eq getPage_def await_def sim_env_def)
qed

subsection \<open>The accessor of the page\<close>

text \<open>
  Claim C6. \<^verbatim>\<open>getPage\<close> returns a stored page as it is, and leaves the state as it was: no
  call is made, so no browser is launched. When no page is stored it runs \<^verbatim>\<open>ensureReady\<close>
  (\<open>ensureConnection\<close>, which is \<^verbatim>\<open>ensureBrowserLaunched\<close>); what that throws goes to the
  caller; when it returns, \<^verbatim>\<open>getPage\<close> returns the page now stored, and throws
  \<^verbatim>\<open>Browser page not available\<close> when there is still none.
\<close>

theorem getPage_behaviour:
  "getPage env s =
     (case page s of
        Some pg \<Rightarrow> (Inr pg, s)
      | None \<Rightarrow>
          (case ensureConnection env s of
             (Inl e, s') \<Rightarrow> (Inl e, s')
           | (Inr u, s') \<Rightarrow>
               (case page s' of
                  Some pg \<Rightarrow> (Inr pg, s')
                | None \<Rightarrow> (Inl (Error ''Browser page not available''), s'))))"
  by (simp add: getPage_def ensureConnection_def await_def split: option.splits prod.splits sum.splits)

subsection \<open>The name of the client\<close>

text \<open>
  Claim C7. The name under which \<^verbatim>\<open>connectMcp\<close> looks the client up and registers it is a
  function of the port alone, \<^verbatim>\<open>`chrome-devtools-${port}`\<close>, and it is injective: two ports
  give the same name if and only if they are the same port.
\<close>

theorem clientName_injective: "clientName p1 = clientName p2 \<longleftrightarrow> p1 = p2"
  by (simp add: clientName_def string_of_nat_inject)

subsection \<open>The client stage\<close>




subsection \<open>The port allocator\<close>

text \<open>
  Claim C9. One call of \<^verbatim>\<open>getFreePort\<close> creates one server and listens once, on port 0.
  It resolves with \<open>p\<close> exactly when listening succeeded and the address read back is an
  \<^verbatim>\<open>AddressInfo\<close> with the port \<open>p\<close>, which is not 0; the server has then been closed, as
  the last call before the result. In every other case it rejects: with the error of the
  \<^verbatim>\<open>'error'\<close> event, or with \<^verbatim>\<open>Failed to get port\<close> when the address is a string,
  \<^verbatim>\<open>null\<close>, or has port 0.
\<close>

theorem getFreePort_single_attempt:
  assumes "createServer env (net s) = (srv, n1)"
      and "listen env srv 0 n1 = (ev, n2)"
      and "getFreePort env s = (r, s')"
  shows "(r = Inr p \<longleftrightarrow> ev = None \<and> p \<noteq> 0 \<and> (\<exists>a f. address env srv n2 = AddressInfo a f p)) \<and>
         (r = Inr p \<longrightarrow>
            calls s' = calls s @ [GetFreePort, CreateServer, Unref srv, OnError srv, Listen srv 0,
                                  Address srv, Close srv] \<and>
            net s' = close env srv n2) \<and>
         ((\<forall>q. r \<noteq> Inr q) \<longrightarrow>
            r = Inl (case ev of Some e \<Rightarrow> e | None \<Rightarrow> Error ''Failed to get port'')) \<and>
         filter is_Listen (calls s') = filter is_Listen (calls s) @ [Listen srv 0] \<and>
         count_list (calls s') CreateServer = Suc (count_list (calls s) CreateServer)"
  using assms
  by (auto simp: getFreePort_def Let_def split: option.splits address.splits if_splits)

theorem getFreePort_single_attempt_witness:
  "createServer sim_env (net (newBrowserManager sim_net sim_world)) =
     (ServerRef 0, sim_net\<lparr>created := 1\<rparr>) \<and>
   listen sim_env (ServerRef 0) 0 (sim_net\<lparr>created := 1\<rparr>) = (None, sim_net\<lparr>created := 1\<rparr>) \<and>
   fst (getFreePort sim_env (newBrowserManager sim_net sim_world)) = Inr 54213 \<and>
   calls (snd (getFreePort sim_env (newBrowserManager sim_net sim_world))) =
     [GetFreePort, CreateServer, Unref (ServerRef 0), OnError (ServerRef 0), Listen (ServerRef 0) 0,
      Address (ServerRef 0), Close (ServerRef 0)]"
proof -
  let ?s = "newBrowserManager sim_net sim_world"
  have a: "createServer sim_env (net ?s) = (ServerRef 0, sim_net\<lparr>created := 1\<rparr>)"
    by (simp add: sim_defs)
  have b: "listen sim_env (ServerRef 0) 0 (sim_net\<lparr>created := 1\<rparr>) = (None, sim_net\<lparr>created := 1\<rparr>)"
    by (simp add: sim_defs)
  have c: "getFreePort sim_env ?s = (fst (getFreePort sim_env ?s), snd (getFreePort sim_env ?s))"
    by simp
  have d: "fst (getFreePort sim_env ?s) = Inr 54213"
    by (simp add: getFreePort_def sim_defs)
  from getFreePort_single_attempt [OF a b c, of 54213] a b d show ?thesis
    by (simp add: sim_defs)
qed

subsection \<open>keyCombination\<close>

text \<open>
  Claim C10. \<^verbatim>\<open>keyCombination\<close> with the keys \<open>k\<close> gives the result of \<^verbatim>\<open>pressKey\<close> with
  \<open>k\<close> and leaves the same state, so it makes the same calls: of \<^verbatim>\<open>callTool\<close>, none when
  no client could be obtained, and otherwise the single call of \<^verbatim>\<open>press_key\<close> with the
  argument \<^verbatim>\<open>{key: k}\<close> on the client obtained. Unless something was thrown, the result is
  the output \<^verbatim>\<open>Pressed key "k"\<close>.
\<close>

theorem keyCombination_is_pressKey:
  "keyCombination env k s = pressKey env k s \<and>
   filter is_CallTool (calls (snd (keyCombination env k s))) =
     filter is_CallTool (calls s) @
       (case fst (getMcpClient env s) of
          Inl e \<Rightarrow> []
        | Inr c \<Rightarrow> [CallTool c ''press_key'' [(''key'', k)]]) \<and>
   (\<forall>e. fst (keyCombination env k s) \<noteq> Inl e) =
     (fst (keyCombination env k s) =
        Inr \<lparr>output = Some (''Pressed key '' @ [CHR 0x22] @ k @ [CHR 0x22]), error = None, url = None\<rparr>)"
proof -
  obtain r1 s1 where g: "getMcpClient env s = (r1, s1)" by (cases "getMcpClient env s")
  from getMcpClient_no_CallTool [of env s] g
  have "filter is_CallTool (calls s1) = filter is_CallTool (calls s)" by simp
  with g show ?thesis
    by (auto simp: keyCombination_def pressKey_def steps split: sum.splits prod.splits)
qed

end
